theory Spec2Isabelle
  imports Complex_Main
begin

section \<open>Crop recommendation engine: a shallow embedding\<close>

text \<open>
  The engine consists of four TypeScript components: the nearest-match classifier and the
  agronomic scorer (\<^verbatim>\<open>CropPrediction.tsx\<close>), the fertilizer planner
  (\<^verbatim>\<open>FertilizerRecommendation.tsx\<close>), the profit analyzer
  (\<^verbatim>\<open>ProfitCalculator.tsx\<close>) and the market ranking (\<^verbatim>\<open>MarketTrends\<close>).

  Numbers. A JavaScript \<^verbatim>\<open>number\<close> is an IEEE double. Finite numbers are modelled
  as \<^typ>\<open>real\<close>, so rounding error and overflow of the floating-point operations are
  outside the model. The special values are modelled where the code can produce them:
  the initial \<^verbatim>\<open>Infinity\<close> of the classifier loop, and the results of a division by zero
  in the profit analyzer. \<^verbatim>\<open>Math.round x\<close> is \<open>\<lfloor>x + 1/2\<rfloor>\<close>, which is \<^const>\<open>round\<close>.
\<close>

subsection \<open>Array.prototype.sort with a comparator\<close>

text \<open>
  \<^verbatim>\<open>xs.sort(cmp)\<close> is a stable sort: \<open>a\<close> stays before \<open>b\<close> unless \<open>cmp a b > 0\<close>.
  It is modelled by a stable insertion sort; the elements are inserted from the right, each
  in front of the first element that it does not have to follow.
\<close>

fun insert_by :: "('a \<Rightarrow> 'a \<Rightarrow> int) \<Rightarrow> 'a \<Rightarrow> 'a list \<Rightarrow> 'a list" where
  "insert_by cmp x [] = [x]"
| "insert_by cmp x (y # ys) =
     (if cmp x y \<le> 0 then x # y # ys else y # insert_by cmp x ys)"

definition array_sort :: "('a \<Rightarrow> 'a \<Rightarrow> int) \<Rightarrow> 'a list \<Rightarrow> 'a list" where
  "array_sort cmp xs = foldr (insert_by cmp) xs []"

subsection \<open>Nearest-match classifier (CropPrediction.tsx)\<close>

record SoilData =
  temperature :: real
  humidity :: real
  ph :: real
  rainfall :: real
  nitrogen :: real
  phosphorus :: real
  potassium :: real

text \<open>A row of the table \<^verbatim>\<open>crop_dataset\<close>: the seven fields of a soil profile and a label.\<close>

record CropRecord = SoilData +
  crop_label :: string

text \<open>The distance computed in the body of the \<^verbatim>\<open>forEach\<close> callback.\<close>

definition distance :: "SoilData \<Rightarrow> CropRecord \<Rightarrow> real" where
  "distance data crop = sqrt (
     (temperature data - temperature crop)\<^sup>2 +
     (humidity data - humidity crop)\<^sup>2 +
     (ph data - ph crop)\<^sup>2 +
     (rainfall data - rainfall crop)\<^sup>2 +
     (nitrogen data - nitrogen crop)\<^sup>2 +
     (phosphorus data - phosphorus crop)\<^sup>2 +
     (potassium data - potassium crop)\<^sup>2)"

text \<open>
  The loop state is the pair \<^verbatim>\<open>(bestMatch, minDistance)\<close>. \<^verbatim>\<open>bestMatch\<close> starts as
  \<^verbatim>\<open>cropDataset[0]\<close>, which is \<^verbatim>\<open>undefined\<close> (\<open>None\<close>) for an empty array;
  \<^verbatim>\<open>minDistance\<close> starts as \<^verbatim>\<open>Infinity\<close> (\<open>None\<close>), above every real distance.
\<close>

type_synonym closest_state = "CropRecord option \<times> real option"

definition below_minDistance :: "real \<Rightarrow> real option \<Rightarrow> bool" where
  "below_minDistance d minDistance = (case minDistance of None \<Rightarrow> True | Some m \<Rightarrow> d < m)"

definition forEach_body :: "SoilData \<Rightarrow> closest_state \<Rightarrow> CropRecord \<Rightarrow> closest_state" where
  "forEach_body data st crop =
     (if below_minDistance (distance data crop) (snd st)
      then (Some crop, Some (distance data crop)) else st)"

definition bestMatch :: "SoilData \<Rightarrow> CropRecord list \<Rightarrow> CropRecord option" where
  "bestMatch data cropDataset =
     fst (foldl (forEach_body data)
            (case cropDataset of [] \<Rightarrow> None | c # _ \<Rightarrow> Some c, None) cropDataset)"

text \<open>The rule cascade of the \<^verbatim>\<open>catch\<close> block.\<close>

definition ruleBasedFallback :: "SoilData \<Rightarrow> string" where
  "ruleBasedFallback data =
     (if nitrogen data > 50 \<and> phosphorus data > 30 \<and> potassium data > 40 then ''wheat''
      else if temperature data > 30 \<and> humidity data > 70 \<and> rainfall data > 150 then ''rice''
      else if ph data > 6 \<and> ph data < 7 \<and> potassium data > 35 then ''maize''
      else ''cotton'')"

text \<open>
  The second argument is what the query returned: \<open>None\<close> when it failed or returned no
  data (\<^verbatim>\<open>error || !cropDataset\<close>, which throws), \<open>Some\<close> of the rows otherwise. An empty
  array passes that test; reading \<^verbatim>\<open>bestMatch.crop_label\<close> of \<^verbatim>\<open>undefined\<close> then
  throws a TypeError inside the same \<^verbatim>\<open>try\<close>. Every throw lands in the \<^verbatim>\<open>catch\<close> block.
\<close>

definition predictCropWithML :: "SoilData \<Rightarrow> CropRecord list option \<Rightarrow> string" where
  "predictCropWithML data fetched =
     (case fetched of
        None \<Rightarrow> ruleBasedFallback data
      | Some cropDataset \<Rightarrow>
          (case bestMatch data cropDataset of
             None \<Rightarrow> ruleBasedFallback data
           | Some b \<Rightarrow> crop_label b))"

subsection \<open>Agronomic scorer (CropPrediction.tsx)\<close>

text \<open>The unions \<^verbatim>\<open>'low' | 'medium' | 'high'\<close> of risk levels and priorities.\<close>

datatype level = Low | Medium | High

text \<open>The value of \<^verbatim>\<open>riskScore\<close> when \<^verbatim>\<open>calculateRiskLevel\<close> reaches its mapping.\<close>

definition riskScore :: "SoilData \<Rightarrow> int" where
  "riskScore data =
     (if ph data < 5.5 \<or> ph data > 8.5 then 2 else 0) +
     (if temperature data > 35 \<or> temperature data < 10 then 2 else 0) +
     (if humidity data < 30 \<or> humidity data > 90 then 1 else 0) +
     (if rainfall data < 50 \<or> rainfall data > 300 then 1 else 0)"

definition calculateRiskLevel :: "SoilData \<Rightarrow> level" where
  "calculateRiskLevel data =
     (if riskScore data \<ge> 4 then High
      else if riskScore data \<ge> 2 then Medium
      else Low)"

text \<open>\<^verbatim>\<open>String.prototype.toLowerCase\<close>, on the ASCII letters.\<close>

definition lower_char :: "char \<Rightarrow> char" where
  "lower_char c =
     (if (65::nat) \<le> of_char c \<and> of_char c \<le> (90::nat)
      then char_of (of_char c + (32::nat)) else c)"

definition toLowerCase :: "string \<Rightarrow> string" where
  "toLowerCase s = map lower_char s"

text \<open>The \<^verbatim>\<open>switch\<close> of \<^verbatim>\<open>calculateYield\<close>: the modifier after the crop-specific cases.\<close>

definition cropModifier :: "SoilData \<Rightarrow> string \<Rightarrow> real" where
  "cropModifier data cropName =
     (let c = toLowerCase cropName; modifier = 1 in
      if c = ''rice'' then
        (let modifier = (if temperature data \<ge> 20 \<and> temperature data \<le> 35 \<and> humidity data > 60
                         then modifier * 1.3 else modifier)
         in if rainfall data > 150 then modifier * 1.2 else modifier)
      else if c = ''wheat'' then
        (let modifier = (if temperature data \<ge> 15 \<and> temperature data \<le> 25
                         then modifier * 1.25 else modifier)
         in if nitrogen data > 40 then modifier * 1.15 else modifier)
      else if c = ''maize'' then
        (let modifier = (if temperature data \<ge> 18 \<and> temperature data \<le> 32
                         then modifier * 1.2 else modifier)
         in if phosphorus data > 25 then modifier * 1.1 else modifier)
      else if c = ''cotton'' then
        (let modifier = (if temperature data \<ge> 25 \<and> temperature data \<le> 35
                         then modifier * 1.15 else modifier)
         in if potassium data > 30 then modifier * 1.1 else modifier)
      else modifier)"

definition calculateYield :: "SoilData \<Rightarrow> string \<Rightarrow> int" where
  "calculateYield data cropName =
     (let baseYield = 100;
          modifier = cropModifier data cropName;
          modifier = (if ph data \<ge> 6 \<and> ph data \<le> 7.5 then modifier * 1.15
                      else if ph data < 5.5 \<or> ph data > 8 then modifier * 0.7
                      else modifier)
      in round (baseYield * modifier))"

text \<open>
  The table \<^verbatim>\<open>baseProfitability\<close> with its own four keys. A label that names a property
  which every object inherits (such as \<^verbatim>\<open>constructor\<close>) is outside the model.
\<close>

definition baseProfitability :: "string \<rightharpoonup> real" where
  "baseProfitability =
     [''rice'' \<mapsto> 75, ''wheat'' \<mapsto> 70, ''maize'' \<mapsto> 65, ''cotton'' \<mapsto> 80]"

definition calculateProfitabilityIndex :: "string \<Rightarrow> int \<Rightarrow> int" where
  "calculateProfitabilityIndex cropName yieldPrediction =
     (let base = (case baseProfitability (toLowerCase cropName) of Some b \<Rightarrow> b | None \<Rightarrow> 60);
          yieldFactor = real_of_int yieldPrediction / 100
      in round (base * yieldFactor))"

text \<open>The initial form state \<^verbatim>\<open>soilData\<close> of the component.\<close>

definition initialSoilData :: SoilData where
  "initialSoilData = \<lparr>temperature = 25, humidity = 65, ph = 6.5, rainfall = 120,
     nitrogen = 40, phosphorus = 25, potassium = 30\<rparr>"

subsection \<open>Fertilizer planner (FertilizerRecommendation.tsx)\<close>

record FertilizerData =
  nitrogen :: real
  phosphorus :: real
  potassium :: real
  ph :: real
  organicMatter :: real
  cropType :: string

text \<open>
  The field \<^verbatim>\<open>amount\<close> is a string: either a literal, or the template
  \<^verbatim>\<open>`${Math.round(..)} kg/hectare`\<close>, kept here as the rounded number it prints.
\<close>

datatype amount_text = KgPerHectare int | Literal string

record FertilizerRecommendation =
  type :: string
  amount :: amount_text
  applicationMethod :: string
  timing :: string
  benefits :: "string list"
  priority :: level

definition nitrogenRec :: "FertilizerData \<Rightarrow> FertilizerRecommendation" where
  "nitrogenRec soilData = \<lparr>
     type = ''Nitrogen Fertilizer (Urea)'',
     amount = KgPerHectare (round ((40 - FertilizerData.nitrogen soilData) * 2.5)),
     applicationMethod = ''Split application: 50% at sowing, 50% at tillering'',
     timing = ''Pre-sowing and 4-6 weeks after sowing'',
     benefits = [''Improved leaf growth'', ''Better protein content'', ''Enhanced yield''],
     priority = (if FertilizerData.nitrogen soilData < 25 then High else Medium)\<rparr>"

definition phosphorusRec :: "FertilizerData \<Rightarrow> FertilizerRecommendation" where
  "phosphorusRec soilData = \<lparr>
     type = ''Phosphorus Fertilizer (DAP)'',
     amount = KgPerHectare (round ((30 - FertilizerData.phosphorus soilData) * 3)),
     applicationMethod = ''Band placement near seed furrow'',
     timing = ''At sowing time'',
     benefits = [''Better root development'', ''Improved flowering'', ''Enhanced seed formation''],
     priority = (if FertilizerData.phosphorus soilData < 15 then High else Medium)\<rparr>"

definition potassiumRec :: "FertilizerData \<Rightarrow> FertilizerRecommendation" where
  "potassiumRec soilData = \<lparr>
     type = ''Potassium Fertilizer (MOP)'',
     amount = KgPerHectare (round ((35 - FertilizerData.potassium soilData) * 2)),
     applicationMethod = ''Broadcasting and incorporation'',
     timing = ''Pre-sowing preparation'',
     benefits = [''Disease resistance'', ''Drought tolerance'', ''Better grain quality''],
     priority = (if FertilizerData.potassium soilData < 20 then High else Medium)\<rparr>"

definition limeRec :: "FertilizerData \<Rightarrow> FertilizerRecommendation" where
  "limeRec soilData = \<lparr>
     type = ''Lime Application'',
     amount = KgPerHectare (round ((6.5 - FertilizerData.ph soilData) * 500)),
     applicationMethod = ''Broadcasting and deep incorporation'',
     timing = ''2-3 months before sowing'',
     benefits = [''pH correction'', ''Better nutrient availability'', ''Improved soil structure''],
     priority = High\<rparr>"

definition gypsumRec :: "FertilizerData \<Rightarrow> FertilizerRecommendation" where
  "gypsumRec soilData = \<lparr>
     type = ''Gypsum Application'',
     amount = KgPerHectare (round ((FertilizerData.ph soilData - 7.5) * 300)),
     applicationMethod = ''Surface application and irrigation'',
     timing = ''Before sowing season'',
     benefits = [''pH reduction'', ''Calcium supply'', ''Soil structure improvement''],
     priority = Medium\<rparr>"

definition organicRec :: FertilizerRecommendation where
  "organicRec = \<lparr>
     type = ''Organic Compost'',
     amount = Literal ''2-3 tons/hectare'',
     applicationMethod = ''Broadcasting and incorporation'',
     timing = ''During land preparation'',
     benefits = [''Soil health improvement'', ''Water retention'', ''Microbial activity''],
     priority = Medium\<rparr>"

definition micronutrientRec :: FertilizerRecommendation where
  "micronutrientRec = \<lparr>
     type = ''Micronutrient Mix (Zn, Fe, Mn, B)'',
     amount = Literal ''5-10 kg/hectare'',
     applicationMethod = ''Soil application or foliar spray'',
     timing = ''At vegetative growth stage'',
     benefits = [''Enzyme activation'', ''Better photosynthesis'', ''Quality improvement''],
     priority = Low\<rparr>"

text \<open>The array \<^verbatim>\<open>recs\<close> after the last \<^verbatim>\<open>push\<close>, before it is sorted.\<close>

definition recs :: "FertilizerData \<Rightarrow> FertilizerRecommendation list" where
  "recs soilData =
     (if FertilizerData.nitrogen soilData < 40 then [nitrogenRec soilData] else []) @
     (if FertilizerData.phosphorus soilData < 30 then [phosphorusRec soilData] else []) @
     (if FertilizerData.potassium soilData < 35 then [potassiumRec soilData] else []) @
     (if FertilizerData.ph soilData < 6.0 then [limeRec soilData]
      else if FertilizerData.ph soilData > 8.0 then [gypsumRec soilData] else []) @
     (if organicMatter soilData < 3.0 then [organicRec] else []) @
     [micronutrientRec]"

fun priorityOrder :: "level \<Rightarrow> int" where
  "priorityOrder High = 3"
| "priorityOrder Medium = 2"
| "priorityOrder Low = 1"

text \<open>The list handed to \<^verbatim>\<open>setRecommendations\<close>.\<close>

definition generateRecommendations :: "FertilizerData \<Rightarrow> FertilizerRecommendation list" where
  "generateRecommendations soilData =
     array_sort (\<lambda>a b. priorityOrder (priority b) - priorityOrder (priority a)) (recs soilData)"

subsection \<open>Profit analyzer (ProfitCalculator.tsx)\<close>

text \<open>
  The result of a JavaScript division: a quotient, or one of the special values that a zero
  divisor gives. The divisors of this component are never the negative zero.
\<close>

datatype jsnum = Num real | PosInfinity | NegInfinity | NaN

definition js_div :: "real \<Rightarrow> real \<Rightarrow> jsnum" where
  "js_div a b =
     (if b \<noteq> 0 then Num (a / b)
      else if a > 0 then PosInfinity
      else if a < 0 then NegInfinity
      else NaN)"

fun js_times :: "jsnum \<Rightarrow> real \<Rightarrow> jsnum" where
  "js_times (Num x) c = Num (x * c)"
| "js_times PosInfinity c = (if c > 0 then PosInfinity else if c < 0 then NegInfinity else NaN)"
| "js_times NegInfinity c = (if c > 0 then NegInfinity else if c < 0 then PosInfinity else NaN)"
| "js_times NaN c = NaN"

fun js_less :: "jsnum \<Rightarrow> real \<Rightarrow> bool" where
  "js_less (Num x) c = (x < c)"
| "js_less PosInfinity c = False"
| "js_less NegInfinity c = True"
| "js_less NaN c = False"

record CropInputs =
  cropType :: string
  areaInAcres :: real
  expectedYield :: real
  sellingPrice :: real
  seedCost :: real
  fertilizerCost :: real
  laborCost :: real
  irrigationCost :: real
  otherCosts :: real

text \<open>
  A recommendation is a literal string, or the template
  \<^verbatim>\<open>`Break-even yield: ${breakEvenPoint.toFixed(1)} quintals per acre`\<close>, kept as the
  number it prints.
\<close>

datatype message = Text string | BreakEvenYield jsnum

record ProfitAnalysis =
  totalRevenue :: real
  totalCosts :: real
  grossProfit :: real
  profitMargin :: jsnum
  roiPercentage :: jsnum
  breakEvenPoint :: jsnum
  profitPerAcre :: jsnum
  riskAssessment :: level
  recommendations :: "message list"

text \<open>The value handed to \<^verbatim>\<open>setAnalysis\<close>.\<close>

definition calculateProfit :: "CropInputs \<Rightarrow> ProfitAnalysis" where
  "calculateProfit inputs =
     (let totalRevenue = areaInAcres inputs * expectedYield inputs * sellingPrice inputs;
          totalCosts = seedCost inputs + fertilizerCost inputs + laborCost inputs +
                       irrigationCost inputs + otherCosts inputs;
          grossProfit = totalRevenue - totalCosts;
          profitMargin = (if totalRevenue > 0
                          then js_times (js_div grossProfit totalRevenue) 100 else Num 0);
          roiPercentage = (if totalCosts > 0
                           then js_times (js_div grossProfit totalCosts) 100 else Num 0);
          breakEvenPoint = (if sellingPrice inputs > 0
                            then js_div totalCosts (sellingPrice inputs * areaInAcres inputs)
                            else Num 0);
          profitPerAcre = (if areaInAcres inputs > 0
                           then js_div grossProfit (areaInAcres inputs) else Num 0);
          riskAssessment = (if js_less profitMargin 10 then High
                            else if js_less profitMargin 25 then Medium
                            else Low);
          recommendations =
            [if js_less profitMargin 0
             then Text ''Current projection shows losses. Consider cost optimization or crop change.''
             else if js_less profitMargin 15
             then Text ''Low profit margins detected. Focus on reducing input costs.''
             else Text ''Good profit potential identified for this crop selection.''] @
            (if js_less roiPercentage 20
             then [Text ''Consider crops with higher market demand for better returns.'']
             else []) @
            (if laborCost inputs > totalCosts * 0.4
             then [Text ''Labor costs are high. Consider mechanization opportunities.'']
             else []) @
            (if fertilizerCost inputs > totalCosts * 0.3
             then [Text ''Fertilizer costs are significant. Explore organic alternatives.'']
             else []) @
            [BreakEvenYield breakEvenPoint]
      in \<lparr>totalRevenue = totalRevenue, totalCosts = totalCosts, grossProfit = grossProfit,
          profitMargin = profitMargin, roiPercentage = roiPercentage,
          breakEvenPoint = breakEvenPoint, profitPerAcre = profitPerAcre,
          riskAssessment = riskAssessment, recommendations = recommendations\<rparr>)"

subsection \<open>Market ranking (MarketTrends)\<close>

text \<open>
  A row of the table \<^verbatim>\<open>market_prices\<close>. The field \<open>price_date\<close> holds the number that
  \<^verbatim>\<open>new Date(price_date).getTime()\<close> gives for the row's date.
\<close>

record MarketPrice =
  crop_name :: string
  price_per_kg :: real
  market_location :: string
  price_date :: int

datatype error = TypeError

text \<open>
  The accumulator of the \<^verbatim>\<open>reduce\<close> is a plain object \<^verbatim>\<open>{}\<close>, so \<^verbatim>\<open>acc[name]\<close> also
  finds what every object inherits from \<^verbatim>\<open>Object.prototype\<close>: these names. Their values
  are functions, or the prototype itself for \<^verbatim>\<open>__proto__\<close>; all are truthy and none has
  a method \<^verbatim>\<open>push\<close>.
\<close>

definition inheritedProperty :: "string \<Rightarrow> bool" where
  "inheritedProperty name \<longleftrightarrow> name \<in> set
     [''constructor'', ''toString'', ''toLocaleString'', ''valueOf'', ''hasOwnProperty'',
      ''isPrototypeOf'', ''propertyIsEnumerable'', ''__proto__'', ''__defineGetter__'',
      ''__defineSetter__'', ''__lookupGetter__'', ''__lookupSetter__'']"

text \<open>
  The accumulator's own keys with their arrays, in the order of creation. For a name
  that is not inherited, a row joins the end of the group of its crop name, and a name
  not seen before opens a new group.
\<close>

type_synonym groups = "(string \<times> MarketPrice list) list"

fun push_group :: "groups \<Rightarrow> MarketPrice \<Rightarrow> groups" where
  "push_group [] price = [(crop_name price, [price])]"
| "push_group ((k, ps) # acc) price =
     (if k = crop_name price then (k, ps @ [price]) # acc
      else (k, ps) # push_group acc price)"

text \<open>
  The callback of the \<^verbatim>\<open>reduce\<close>. For an inherited name \<^verbatim>\<open>!acc[name]\<close> is false, no
  array is created, and \<^verbatim>\<open>acc[name].push(price)\<close> throws a TypeError.
\<close>

definition push_price :: "groups \<Rightarrow> MarketPrice \<Rightarrow> error + groups" where
  "push_price acc price =
     (if inheritedProperty (crop_name price) then Inl TypeError
      else Inr (push_group acc price))"

fun reduce_prices :: "groups \<Rightarrow> MarketPrice list \<Rightarrow> error + groups" where
  "reduce_prices acc [] = Inr acc"
| "reduce_prices acc (price # prices) =
     (case push_price acc price of
        Inl e \<Rightarrow> Inl e
      | Inr acc' \<Rightarrow> reduce_prices acc' prices)"

definition cropGroups :: "MarketPrice list \<Rightarrow> error + groups" where
  "cropGroups prices = reduce_prices [] prices"

datatype trend = Up | Down | Stable

text \<open>The trend that the \<^verbatim>\<open>map\<close> callback of \<^verbatim>\<open>analyzeProfitability\<close> computes for one group.\<close>

definition groupTrend :: "MarketPrice list \<Rightarrow> trend" where
  "groupTrend cropPrices =
     (let sortedPrices = array_sort (\<lambda>a b. price_date b - price_date a) cropPrices;
          latestPrice = (case sortedPrices of [] \<Rightarrow> 0 | p # _ \<Rightarrow> price_per_kg p);
          older = take 3 (drop 1 sortedPrices);
          olderAvg = sum_list (map price_per_kg older) / real (max 1 (length older))
      in if latestPrice > olderAvg * 1.05 then Up
         else if latestPrice < olderAvg * 0.95 then Down
         else Stable)"

text \<open>
  The fields \<^verbatim>\<open>cropName\<close> and \<^verbatim>\<open>trend\<close> of the entries of \<^verbatim>\<open>analysis\<close>, or the
  TypeError of the \<^verbatim>\<open>reduce\<close>, which leaves the function before any entry is made (the
  caller catches it and sets no ranking). The scores and the order of the entries
  (\<^verbatim>\<open>Object.entries\<close> lists integer-like keys first, and the entries are then sorted by
  score) are not modelled: the trend of an entry depends on its own group only.
\<close>

definition analyzeProfitability :: "MarketPrice list \<Rightarrow> error + (string \<times> trend) list" where
  "analyzeProfitability prices =
     (case cropGroups prices of
        Inl e \<Rightarrow> Inl e
      | Inr groups \<Rightarrow>
          Inr (map (\<lambda>(cropName, cropPrices). (cropName, groupTrend cropPrices)) groups))"

section \<open>Properties\<close>

subsection \<open>Helper lemmas\<close>

lemma round_eq_iff:
  "round (x::real) = n \<longleftrightarrow> real_of_int n - 1/2 \<le> x \<and> x < real_of_int n + 1/2"
  unfolding round_def by (auto simp: floor_eq_iff)

text \<open>With a comparator that subtracts keys, the sort is the library's stable sort by key.\<close>

lemma insert_by_insort_key:
  fixes f :: "'a \<Rightarrow> int"
  shows "insert_by (\<lambda>a b. f b - f a) x ys = insort_key (\<lambda>x. - f x) x ys"
  by (induction ys) auto

lemma array_sort_sort_key:
  fixes f :: "'a \<Rightarrow> int"
  shows "array_sort (\<lambda>a b. f b - f a) xs = sort_key (\<lambda>x. - f x) xs"
  by (induction xs) (simp_all add: array_sort_def insert_by_insort_key)

lemma priorityOrder_inj: "priorityOrder p = priorityOrder q \<longleftrightarrow> p = q"
  by (cases p; cases q) simp_all


text \<open>In the profit analyzer the three rates other than the break-even yield are guarded.\<close>

lemma guarded_rates:
  "\<exists>m r p. profitMargin (calculateProfit inputs) = Num m
     \<and> roiPercentage (calculateProfit inputs) = Num r
     \<and> profitPerAcre (calculateProfit inputs) = Num p"
  by (simp add: calculateProfit_def Let_def js_div_def)

text \<open>The break-even yield is a quotient whenever the area is not 0.\<close>

lemma breakEven_guarded_unless_area_zero:
  "areaInAcres inputs \<noteq> 0 \<Longrightarrow> \<exists>y. breakEvenPoint (calculateProfit inputs) = Num y"
  by (simp add: calculateProfit_def Let_def js_div_def)

subsection \<open>Nearest-match classifier\<close>



text \<open>
  Claim C8. When the dataset cannot be obtained, or is empty, the classifier still returns
  a label: the one of the rule cascade, which is one of wheat, rice, maize and cotton.
\<close>

theorem fallback_closed_set:
  "predictCropWithML data None \<in> {''wheat'', ''rice'', ''maize'', ''cotton''}
   \<and> predictCropWithML data (Some []) \<in> {''wheat'', ''rice'', ''maize'', ''cotton''}"
  by (simp add: predictCropWithML_def bestMatch_def ruleBasedFallback_def)

subsection \<open>Agronomic scorer\<close>

text \<open>
  Claim C4 says that the profitability index lies between 0 and 100. The code rounds
  \<open>base * (yield / 100)\<close> and the yield index can exceed 100: at the initial form state,
  with the dataset unavailable, the crop is cotton, the yield index is 132 and the
  profitability index is 106, which the page prints as a score out of 100.
\<close>

theorem profitability_above_100:
  "predictCropWithML initialSoilData None = ''cotton''
   \<and> calculateYield initialSoilData ''cotton'' = 132
   \<and> calculateProfitabilityIndex ''cotton'' 132 = 106"
  by (simp add: predictCropWithML_def ruleBasedFallback_def initialSoilData_def calculateYield_def
      cropModifier_def toLowerCase_def lower_char_def calculateProfitabilityIndex_def
      baseProfitability_def Let_def round_eq_iff)

text \<open>
  Claim C7. Two soil profiles agree on every field but the pH, and the pH of the second
  is at least as far outside the interval from 5.5 to 8.5 as the pH of the first (the
  distance is 0 inside the interval). Then the accumulated risk score of the second is
  not smaller.
\<close>

theorem risk_monotone_in_ph:
  assumes "temperature a = temperature b" and "humidity a = humidity b"
    and "rainfall a = rainfall b"
    and "SoilData.nitrogen a = SoilData.nitrogen b"
    and "SoilData.phosphorus a = SoilData.phosphorus b"
    and "SoilData.potassium a = SoilData.potassium b"
    and "max 0 (max (5.5 - SoilData.ph a) (SoilData.ph a - 8.5))
           \<le> max 0 (max (5.5 - SoilData.ph b) (SoilData.ph b - 8.5))"
  shows "riskScore a \<le> riskScore b"
  using assms by (auto simp: riskScore_def)

text \<open>From a pH of 9 to a pH of 10, and from the pH inside the interval to a pH of 5.\<close>

theorem risk_monotone_in_ph_witness:
  "(let a = \<lparr>temperature = 40, humidity = 65, ph = 9, rainfall = 120, nitrogen = 40,
              phosphorus = 25, potassium = 30\<rparr>;
        b = \<lparr>temperature = 40, humidity = 65, ph = 10, rainfall = 120, nitrogen = 40,
              phosphorus = 25, potassium = 30\<rparr>
    in max 0 (max (5.5 - SoilData.ph a) (SoilData.ph a - 8.5))
         \<le> max 0 (max (5.5 - SoilData.ph b) (SoilData.ph b - 8.5))
     \<and> riskScore a \<le> riskScore b \<and> riskScore a = 4 \<and> riskScore b = 4)
   \<and> (let a = \<lparr>temperature = 25, humidity = 65, ph = 6.5, rainfall = 120, nitrogen = 40,
              phosphorus = 25, potassium = 30\<rparr>;
        b = \<lparr>temperature = 25, humidity = 65, ph = 5, rainfall = 120, nitrogen = 40,
              phosphorus = 25, potassium = 30\<rparr>
    in max 0 (max (5.5 - SoilData.ph a) (SoilData.ph a - 8.5))
         \<le> max 0 (max (5.5 - SoilData.ph b) (SoilData.ph b - 8.5))
     \<and> riskScore a \<le> riskScore b \<and> riskScore a = 0 \<and> riskScore b = 2)"
  using risk_monotone_in_ph [of
      "\<lparr>temperature = 40, humidity = 65, ph = 9, rainfall = 120, nitrogen = 40,
              phosphorus = 25, potassium = 30\<rparr>"
      "\<lparr>temperature = 40, humidity = 65, ph = 10, rainfall = 120, nitrogen = 40,
              phosphorus = 25, potassium = 30\<rparr>"]
    risk_monotone_in_ph [of
      "\<lparr>temperature = 25, humidity = 65, ph = 6.5, rainfall = 120, nitrogen = 40,
              phosphorus = 25, potassium = 30\<rparr>"
      "\<lparr>temperature = 25, humidity = 65, ph = 5, rainfall = 120, nitrogen = 40,
              phosphorus = 25, potassium = 30\<rparr>"]
  by (simp add: Let_def riskScore_def)

subsection \<open>Fertilizer planner\<close>

text \<open>
  Claim C5. For every nutrient input the output holds the micronutrient recommendation,
  whose priority is low; the output is in descending order of the priority rank; and for
  each priority the entries of that priority stand in the order in which the rules
  produced them.
\<close>

theorem plan_sorted_with_baseline:
  "micronutrientRec \<in> set (generateRecommendations soilData)
   \<and> priority micronutrientRec = Low
   \<and> sorted_wrt (\<lambda>a b. priorityOrder (priority a) \<ge> priorityOrder (priority b))
        (generateRecommendations soilData)
   \<and> (\<forall>p. filter (\<lambda>r. priority r = p) (generateRecommendations soilData)
          = filter (\<lambda>r. priority r = p) (recs soilData))"
proof -
  let ?key = "\<lambda>r. - priorityOrder (priority r)"
  have gen: "generateRecommendations soilData = sort_key ?key (recs soilData)"
    unfolding generateRecommendations_def by (rule array_sort_sort_key)
  have "micronutrientRec \<in> set (recs soilData)"
    by (simp add: recs_def)
  then have base: "micronutrientRec \<in> set (generateRecommendations soilData)"
    by (simp add: gen)
  have low: "priority micronutrientRec = Low"
    by (simp add: micronutrientRec_def)
  have "sorted (map ?key (sort_key ?key (recs soilData)))"
    by (rule sorted_sort_key)
  then have srt: "sorted_wrt (\<lambda>a b. priorityOrder (priority a) \<ge> priorityOrder (priority b))
        (generateRecommendations soilData)"
    by (simp add: gen sorted_map)
  have stable: "filter (\<lambda>r. priority r = p) (generateRecommendations soilData)
          = filter (\<lambda>r. priority r = p) (recs soilData)" for p
  proof -
    have eq: "(\<lambda>r. priority r = p) = (\<lambda>r. ?key r = - priorityOrder p)"
      by (simp add: priorityOrder_inj)
    have "filter (\<lambda>r. ?key r = - priorityOrder p) (sort_key ?key (recs soilData))
        = filter (\<lambda>r. ?key r = - priorityOrder p) (recs soilData)"
      by (rule sort_key_stable)
    then show ?thesis
      unfolding gen eq .
  qed
  from base low srt stable show ?thesis by blast
qed

text \<open>
  Claim C6. For N = 20, P = 10, K = 15, pH = 5.0 and organic matter 2.0 the planner gives
  six recommendations: nitrogen, phosphorus, potassium, lime, organic compost and the
  micronutrient mix, in this order after the sort. Nitrogen and lime have priority high,
  and the priorities of the output are four times high, then medium, then low.
\<close>

theorem plan_example:
  "(let soilData = \<lparr>nitrogen = 20, phosphorus = 10, potassium = 15, ph = 5.0,
                     organicMatter = 2.0, cropType = ''wheat''\<rparr>;
        out = generateRecommendations soilData
    in out = [nitrogenRec soilData, phosphorusRec soilData, potassiumRec soilData,
              limeRec soilData, organicRec, micronutrientRec]
     \<and> length out = 6
     \<and> map amount out = [KgPerHectare 50, KgPerHectare 60, KgPerHectare 40, KgPerHectare 750,
          Literal ''2-3 tons/hectare'', Literal ''5-10 kg/hectare'']
     \<and> priority (nitrogenRec soilData) = High
     \<and> priority (limeRec soilData) = High
     \<and> map priority out = [High, High, High, High, Medium, Low])"
  by (simp add: Let_def generateRecommendations_def recs_def array_sort_def
      nitrogenRec_def phosphorusRec_def potassiumRec_def limeRec_def organicRec_def
      micronutrientRec_def)

subsection \<open>Profit analyzer\<close>

text \<open>
  Claim C2. For an area of 1 acre, a yield of 20 quintals per acre, a price of 2500 per
  quintal and five costs whose sum is 30000, the revenue is 50000, the costs are 30000,
  the gross profit is 20000, the margin is 40, the return on investment is
  \<open>20000 / 30000 * 100\<close>, which is within 0.05 of 66.7, and the risk is low.
\<close>

theorem analyze_example:
  assumes "areaInAcres inputs = 1" and "expectedYield inputs = 20" and "sellingPrice inputs = 2500"
    and "seedCost inputs + fertilizerCost inputs + laborCost inputs + irrigationCost inputs
           + otherCosts inputs = 30000"
  shows "totalRevenue (calculateProfit inputs) = 50000
     \<and> totalCosts (calculateProfit inputs) = 30000
     \<and> grossProfit (calculateProfit inputs) = 20000
     \<and> profitMargin (calculateProfit inputs) = Num 40
     \<and> roiPercentage (calculateProfit inputs) = Num (20000 / 30000 * 100)
     \<and> \<bar>20000 / 30000 * 100 - 66.7\<bar> < (0.05::real)
     \<and> riskAssessment (calculateProfit inputs) = Low"
  using assms by (simp add: calculateProfit_def Let_def js_div_def)

text \<open>The initial form state of the calculator has these values.\<close>

theorem analyze_example_witness:
  "(let inputs = \<lparr>cropType = ''wheat'', areaInAcres = 1, expectedYield = 20,
          sellingPrice = 2500, seedCost = 3000, fertilizerCost = 8000, laborCost = 12000,
          irrigationCost = 5000, otherCosts = 2000\<rparr>
    in areaInAcres inputs = 1 \<and> expectedYield inputs = 20 \<and> sellingPrice inputs = 2500
     \<and> seedCost inputs + fertilizerCost inputs + laborCost inputs + irrigationCost inputs
           + otherCosts inputs = 30000
     \<and> totalRevenue (calculateProfit inputs) = 50000
     \<and> totalCosts (calculateProfit inputs) = 30000
     \<and> grossProfit (calculateProfit inputs) = 20000
     \<and> profitMargin (calculateProfit inputs) = Num 40
     \<and> roiPercentage (calculateProfit inputs) = Num (200 / 3)
     \<and> riskAssessment (calculateProfit inputs) = Low)"
  using analyze_example [of "\<lparr>cropType = ''wheat'', areaInAcres = 1, expectedYield = 20,
      sellingPrice = 2500, seedCost = 3000, fertilizerCost = 8000, laborCost = 12000,
      irrigationCost = 5000, otherCosts = 2000\<rparr>"]
  by (simp add: Let_def)

text \<open>
  Claim C3 says that no rate is computed by a division by zero. The break-even yield is
  guarded by the price alone, and its divisor is the price times the area: with an area
  of 0 and a positive price the code divides the costs by zero, and the result is
  \<^verbatim>\<open>Infinity\<close>, not 0.
\<close>

theorem breakEven_divides_by_zero:
  "(let inputs = \<lparr>cropType = ''wheat'', areaInAcres = 0, expectedYield = 20,
          sellingPrice = 2500, seedCost = 3000, fertilizerCost = 8000, laborCost = 12000,
          irrigationCost = 5000, otherCosts = 2000\<rparr>
    in sellingPrice inputs * areaInAcres inputs = 0
     \<and> breakEvenPoint (calculateProfit inputs) = PosInfinity
     \<and> profitPerAcre (calculateProfit inputs) = Num 0)"
  by (simp add: calculateProfit_def Let_def js_div_def)

subsection \<open>Market ranking\<close>

text \<open>
  The \<^verbatim>\<open>reduce\<close> throws exactly when a row of the feed has an inherited name. Otherwise
  the group of a crop name holds the rows of that name in the order of the feed, and a
  name has a group exactly when a row has it.
\<close>

lemma reduce_prices_no_inherited:
  "\<forall>p\<in>set prices. \<not> inheritedProperty (crop_name p) \<Longrightarrow>
   reduce_prices acc prices = Inr (foldl push_group acc prices)"
  by (induction prices arbitrary: acc) (simp_all add: push_price_def)

lemma reduce_prices_inherited:
  "\<exists>p\<in>set prices. inheritedProperty (crop_name p) \<Longrightarrow> reduce_prices acc prices = Inl TypeError"
proof (induction prices arbitrary: acc)
  case Nil
  then show ?case by simp
next
  case (Cons p prices)
  show ?case
  proof (cases "inheritedProperty (crop_name p)")
    case True
    then show ?thesis by (simp add: push_price_def)
  next
    case False
    with Cons.prems have "\<exists>q\<in>set prices. inheritedProperty (crop_name q)"
      by auto
    then have "reduce_prices (push_group acc p) prices = Inl TypeError"
      by (rule Cons.IH)
    with False show ?thesis by (simp add: push_price_def)
  qed
qed

lemma cropGroups_cases:
  "cropGroups prices =
     (if \<exists>p\<in>set prices. inheritedProperty (crop_name p) then Inl TypeError
      else Inr (foldl push_group [] prices))"
  using reduce_prices_no_inherited [of prices "[]"] reduce_prices_inherited [of prices "[]"]
  by (auto simp: cropGroups_def)

lemma analyzeProfitability_throws:
  "analyzeProfitability
     [\<lparr>crop_name = ''constructor'', price_per_kg = 12, market_location = ''Guntur'', price_date = 40\<rparr>,
      \<lparr>crop_name = ''rice'', price_per_kg = 11, market_location = ''Guntur'', price_date = 30\<rparr>]
   = Inl TypeError"
  by (simp add: analyzeProfitability_def cropGroups_def push_price_def inheritedProperty_def)

lemma map_of_push_group:
  "map_of (push_group acc p) =
     (map_of acc)(crop_name p \<mapsto> (case map_of acc (crop_name p) of None \<Rightarrow> [p] | Some ps \<Rightarrow> ps @ [p]))"
  by (induction acc p rule: push_group.induct) (auto simp: fun_eq_iff)

lemma map_of_foldl_push_group:
  "map_of (foldl push_group [] prices) c =
     (if filter (\<lambda>p. crop_name p = c) prices = [] then None
      else Some (filter (\<lambda>p. crop_name p = c) prices))"
proof (induction prices rule: rev_induct)
  case Nil
  show ?case by simp
next
  case (snoc x xs)
  have step: "map_of (foldl push_group [] (xs @ [x])) =
      (map_of (foldl push_group [] xs))(crop_name x \<mapsto>
         (case map_of (foldl push_group [] xs) (crop_name x) of
            None \<Rightarrow> [x] | Some ps \<Rightarrow> ps @ [x]))"
    by (simp only: foldl_append foldl_Cons foldl_Nil map_of_push_group)
  show ?case
  proof (cases "crop_name x = c")
    case True
    then show ?thesis
      unfolding step using snoc by (simp split: if_splits)
  next
    case False
    then show ?thesis
      unfolding step using snoc by simp
  qed
qed

lemma analyzeProfitability_Inr:
  "cropGroups prices = Inr groups \<Longrightarrow>
   \<exists>a. analyzeProfitability prices = Inr a \<and> map_of a c = map_option groupTrend (map_of groups c)"
  by (simp add: analyzeProfitability_def map_of_map)




text \<open>
  Claim C10. Let no row of the feed have an inherited name, so that the grouping
  succeeds. A crop with exactly one row in the feed, of positive price, has the trend up:
  there is no older row, the older average is 0, and the price exceeds \<open>1.05 * 0\<close>.
\<close>

theorem single_record_trend_up:
  assumes ok: "\<forall>p\<in>set prices. \<not> inheritedProperty (crop_name p)"
    and one: "filter (\<lambda>p. crop_name p = c) prices = [r]"
    and pos: "price_per_kg r > 0"
  shows "\<exists>a. analyzeProfitability prices = Inr a \<and> map_of a c = Some Up"
proof -
  have groups: "cropGroups prices = Inr (foldl push_group [] prices)"
    using ok by (simp add: cropGroups_cases)
  have "map_of (foldl push_group [] prices) c = Some [r]"
    using one by (simp add: map_of_foldl_push_group)
  moreover have "groupTrend [r] = Up"
    using pos by (simp add: groupTrend_def array_sort_def)
  ultimately show ?thesis
    using analyzeProfitability_Inr [OF groups, of c] by simp
qed

text \<open>One row of rice between two rows of wheat.\<close>

theorem single_record_trend_up_witness:
  "(let r = \<lparr>crop_name = ''rice'', price_per_kg = 11, market_location = ''Guntur'', price_date = 40\<rparr>;
        prices = [\<lparr>crop_name = ''wheat'', price_per_kg = 30, market_location = ''Guntur'',
                    price_date = 50\<rparr>, r,
                  \<lparr>crop_name = ''wheat'', price_per_kg = 31, market_location = ''Guntur'',
                    price_date = 35\<rparr>]
    in list_all (\<lambda>p. \<not> inheritedProperty (crop_name p)) prices
     \<and> filter (\<lambda>p. crop_name p = ''rice'') prices = [r]
     \<and> price_per_kg r > 0
     \<and> (\<exists>a. analyzeProfitability prices = Inr a \<and> map_of a ''rice'' = Some Up))"
proof -
  let ?r = "\<lparr>crop_name = ''rice'', price_per_kg = 11, market_location = ''Guntur'', price_date = 40\<rparr>"
  let ?prices = "[\<lparr>crop_name = ''wheat'', price_per_kg = 30, market_location = ''Guntur'',
                    price_date = 50\<rparr>, ?r,
                  \<lparr>crop_name = ''wheat'', price_per_kg = 31, market_location = ''Guntur'',
                    price_date = 35\<rparr>]"
  have ok: "\<forall>p\<in>set ?prices. \<not> inheritedProperty (crop_name p)"
    by (simp add: inheritedProperty_def)
  have one: "filter (\<lambda>p. crop_name p = ''rice'') ?prices = [?r]"
    by simp
  have pos: "price_per_kg ?r > 0"
    by simp
  from single_record_trend_up [OF ok one pos] ok one show ?thesis
    by (simp add: Let_def)
qed

end
